theory Spec2Isabelle
  imports Main
begin

section \<open>Strings and truthiness\<close>

text \<open>
  A JavaScript string is modelled as a \<^typ>\<open>string\<close>; one \<^typ>\<open>char\<close> stands for one
  code unit, so \<^term>\<open>length\<close> is the source's \<open>.length\<close>. A string used as a condition
  (\<open>!email\<close>, \<open>emailError || passwordError\<close>, \<open>data.error || ...\<close>) is truthy exactly when
  it is not the empty string.
\<close>

definition truthy :: "string \<Rightarrow> bool" where
  "truthy s = (s \<noteq> [])"

text \<open>\<open>s.includes(c)\<close> for a search string of one code unit, as both forms call it.\<close>

definition str_includes :: "string \<Rightarrow> char \<Rightarrow> bool" where
  "str_includes s c = (c \<in> set s)"

section \<open>Validators\<close>

text \<open>\<open>validateEmail\<close> of LoginForm.tsx (lines 40-44).\<close>

definition login_validateEmail :: "string \<Rightarrow> string" where
  "login_validateEmail email =
     (if \<not> truthy email then ''Email is required''
      else if \<not> str_includes email CHR ''@'' \<or> \<not> str_includes email CHR ''.''
        then ''Invalid email format''
      else '''')"

text \<open>\<open>validatePassword\<close> of LoginForm.tsx (lines 46-49).\<close>

definition login_validatePassword :: "string \<Rightarrow> string" where
  "login_validatePassword password =
     (if \<not> truthy password then ''Password is required'' else '''')"

text \<open>\<open>validateEmail\<close> of the signup form (lines 36-40).\<close>

definition signup_validateEmail :: "string \<Rightarrow> string" where
  "signup_validateEmail email =
     (if \<not> truthy email then ''Email is required''
      else if \<not> str_includes email CHR ''@'' \<or> \<not> str_includes email CHR ''.''
        then ''Invalid email format''
      else '''')"

text \<open>\<open>validatePassword\<close> of the signup form (lines 42-46).\<close>

definition signup_validatePassword :: "string \<Rightarrow> string" where
  "signup_validatePassword password =
     (if \<not> truthy password then ''Password is required''
      else if length password < 8 then ''Password must be at least 8 characters''
      else '''')"

section \<open>Component state\<close>

text \<open>
  The type of the \<open>fieldErrors\<close> state, \<open>{ email?: string; password?: string }\<close>: each
  property is absent (\<open>None\<close>) or holds a string, which may be the empty string.
\<close>

record field_errors =
  fe_email :: "string option"
  fe_password :: "string option"

text \<open>The five \<open>useState\<close> cells of a form; both forms declare the same five.\<close>

record form_state =
  email :: string
  password :: string
  loading :: bool
  error :: string
  fieldErrors :: field_errors

text \<open>The initial values given to \<open>useState\<close>.\<close>

definition initialState :: form_state where
  "initialState =
     \<lparr>email = '''', password = '''', loading = False, error = '''',
      fieldErrors = \<lparr>fe_email = None, fe_password = None\<rparr>\<rparr>"

text \<open>
  The submit button of both forms is rendered with \<open>disabled={loading}\<close>: while the flag is
  set the user cannot start a submit attempt.
\<close>

definition submit_disabled :: "form_state \<Rightarrow> bool" where
  "submit_disabled s = loading s"

section \<open>External calls\<close>

text \<open>
  The second argument of \<open>signIn\<close>: \<open>{ email, password, redirect: false }\<close>.
\<close>

record signin_options =
  so_email :: string
  so_password :: string
  so_redirect :: bool

text \<open>
  What \<open>await signIn(...)\<close> gives: the promise rejects, or it resolves to a result that
  may be undefined (the code reads it with \<open>result?.error\<close>) and whose \<open>error\<close> property
  may be absent.
\<close>

record signin_response =
  sr_error :: "string option"

datatype signin_outcome =
  SignInRejected
| SignInResolved "signin_response option"

text \<open>The condition \<open>result?.error\<close>.\<close>

definition result_error :: "signin_response option \<Rightarrow> bool" where
  "result_error result =
     (case result of
        None \<Rightarrow> False
      | Some r \<Rightarrow> (case sr_error r of None \<Rightarrow> False | Some e \<Rightarrow> truthy e))"

text \<open>
  The object given to \<open>JSON.stringify\<close> and the second argument of \<open>fetch\<close>.
\<close>

record signup_payload =
  sp_email :: string
  sp_password :: string

record fetch_init =
  fi_method :: string
  fi_headers :: "(string \<times> string) list"
  fi_body :: signup_payload

text \<open>
  What \<open>await response.json()\<close> gives: the promise rejects (the body is not JSON), or it
  resolves to the parsed body. Reading \<open>.error\<close> of \<open>null\<close> throws; of any other parsed
  value it yields the property, here a string when present (the state cell \<open>error\<close> holds
  strings), and \<open>None\<close> when the property is absent.
\<close>

datatype json_data =
  DataNull
| DataObject "string option"

datatype json_outcome =
  JsonRejected
| JsonResolved json_data

record response =
  ok :: bool
  json :: json_outcome

datatype fetch_outcome =
  FetchRejected
| FetchResolved response

text \<open>What a submit handler does to the world outside the component's state, in order.\<close>

datatype effect =
  PreventDefault
| SignInCall string signin_options
| FetchCall string fetch_init
| OnSuccessCall
| Navigate string

text \<open>Exceptions inside the signup form's \<open>try\<close> block.\<close>

datatype exn =
  FetchError
| JsonError
| TypeError

section \<open>Login form\<close>

text \<open>
  The props of \<open>LoginForm\<close>. \<open>lp_onSuccess\<close> says whether the caller supplied the
  callback; the two URLs are optional and the component supplies the defaults.
\<close>

record login_props =
  lp_onSuccess :: bool
  lp_redirectUrl :: "string option"
  lp_signupUrl :: "string option"

definition redirectUrl :: "login_props \<Rightarrow> string" where
  "redirectUrl props = (case lp_redirectUrl props of None \<Rightarrow> ''/'' | Some u \<Rightarrow> u)"

definition signupUrl :: "login_props \<Rightarrow> string" where
  "signupUrl props = (case lp_signupUrl props of None \<Rightarrow> ''/signup'' | Some u \<Rightarrow> u)"

text \<open>
  \<open>handleSubmit\<close> of LoginForm.tsx is an async function with one \<open>await\<close>. The part
  before the \<open>await\<close> (lines 63-79) either returns (no call is pending) or reaches the
  call of \<open>signIn\<close> with the state updates made so far.
\<close>

definition login_handleSubmit_to_await :: "form_state \<Rightarrow> form_state \<times> signin_options option" where
  "login_handleSubmit_to_await s =
     (let emailError = login_validateEmail (email s);
          passwordError = login_validatePassword (password s)
      in if truthy emailError \<or> truthy passwordError
         then (s\<lparr>fieldErrors := \<lparr>fe_email = Some emailError, fe_password = Some passwordError\<rparr>\<rparr>,
               None)
         else (s\<lparr>loading := True, error := ''''\<rparr>,
               Some \<lparr>so_email = email s, so_password = password s, so_redirect = False\<rparr>))"

text \<open>
  The part after the \<open>await\<close> (lines 81-90). A rejected promise leaves the function
  there: nothing in \<open>handleSubmit\<close> catches it.
\<close>

definition login_handleSubmit_resume ::
    "login_props \<Rightarrow> signin_outcome \<Rightarrow> form_state \<Rightarrow> form_state \<times> effect list" where
  "login_handleSubmit_resume props outcome s =
     (case outcome of
        SignInRejected \<Rightarrow> (s, [])
      | SignInResolved result \<Rightarrow>
          if result_error result
          then (s\<lparr>error := ''Invalid email or password'', loading := False\<rparr>, [])
          else if lp_onSuccess props then (s, [OnSuccessCall])
          else (s, [Navigate (redirectUrl props)]))"

definition login_handleSubmit ::
    "login_props \<Rightarrow> (string \<Rightarrow> signin_options \<Rightarrow> signin_outcome) \<Rightarrow> form_state
      \<Rightarrow> form_state \<times> effect list" where
  "login_handleSubmit props signIn s =
     (case login_handleSubmit_to_await s of
        (s1, None) \<Rightarrow> (s1, [PreventDefault])
      | (s1, Some options) \<Rightarrow>
          (case login_handleSubmit_resume props (signIn ''credentials'' options) s1 of
             (s2, effects) \<Rightarrow>
               (s2, PreventDefault # SignInCall ''credentials'' options # effects)))"

section \<open>Signup form\<close>

record signup_props =
  sp_apiEndpoint :: "string option"
  sp_onSuccess :: bool
  sp_loginUrl :: "string option"

definition apiEndpoint :: "signup_props \<Rightarrow> string" where
  "apiEndpoint props =
     (case sp_apiEndpoint props of None \<Rightarrow> ''/api/auth/signup'' | Some u \<Rightarrow> u)"

definition loginUrl :: "signup_props \<Rightarrow> string" where
  "loginUrl props = (case sp_loginUrl props of None \<Rightarrow> ''/login'' | Some u \<Rightarrow> u)"

text \<open>The part of the signup form's \<open>handleSubmit\<close> before \<open>await fetch\<close> (lines 60-79).\<close>

definition signup_handleSubmit_to_await ::
    "signup_props \<Rightarrow> form_state \<Rightarrow> form_state \<times> (string \<times> fetch_init) option" where
  "signup_handleSubmit_to_await props s =
     (let emailError = signup_validateEmail (email s);
          passwordError = signup_validatePassword (password s)
      in if truthy emailError \<or> truthy passwordError
         then (s\<lparr>fieldErrors := \<lparr>fe_email = Some emailError, fe_password = Some passwordError\<rparr>\<rparr>,
               None)
         else (s\<lparr>loading := True, error := ''''\<rparr>,
               Some (apiEndpoint props,
                     \<lparr>fi_method = ''POST'',
                      fi_headers = [(''Content-Type'', ''application/json'')],
                      fi_body = \<lparr>sp_email = email s, sp_password = password s\<rparr>\<rparr>)))"

text \<open>
  The \<open>try\<close> block from the result of \<open>fetch\<close> on (lines 81-90): \<open>Inl\<close> is a throw. Every
  throw happens before the block has changed the state.
\<close>

definition signup_try ::
    "signup_props \<Rightarrow> fetch_outcome \<Rightarrow> form_state \<Rightarrow> exn + form_state \<times> effect list" where
  "signup_try props outcome s =
     (case outcome of
        FetchRejected \<Rightarrow> Inl FetchError
      | FetchResolved response \<Rightarrow>
          if ok response
          then (if sp_onSuccess props then Inr (s, [OnSuccessCall])
                else Inr (s, [Navigate (loginUrl props)]))
          else (case json response of
                  JsonRejected \<Rightarrow> Inl JsonError
                | JsonResolved DataNull \<Rightarrow> Inl TypeError
                | JsonResolved (DataObject data_error) \<Rightarrow>
                    Inr (s\<lparr>error := (case data_error of
                                       None \<Rightarrow> ''Signup failed''
                                     | Some e \<Rightarrow> if truthy e then e else ''Signup failed'')\<rparr>,
                         [])))"

text \<open>\<open>try\<close>, \<open>catch\<close> and \<open>finally\<close> (lines 72-95).\<close>

definition signup_handleSubmit_resume ::
    "signup_props \<Rightarrow> fetch_outcome \<Rightarrow> form_state \<Rightarrow> form_state \<times> effect list" where
  "signup_handleSubmit_resume props outcome s =
     (case (case signup_try props outcome s of
              Inl err \<Rightarrow> (s\<lparr>error := ''Something went wrong''\<rparr>, [])
            | Inr r \<Rightarrow> r) of
        (s1, effects) \<Rightarrow> (s1\<lparr>loading := False\<rparr>, effects))"

definition signup_handleSubmit ::
    "signup_props \<Rightarrow> (string \<Rightarrow> fetch_init \<Rightarrow> fetch_outcome) \<Rightarrow> form_state
      \<Rightarrow> form_state \<times> effect list" where
  "signup_handleSubmit props fetch s =
     (case signup_handleSubmit_to_await props s of
        (s1, None) \<Rightarrow> (s1, [PreventDefault])
      | (s1, Some (url, init)) \<Rightarrow>
          (case signup_handleSubmit_resume props (fetch url init) s1 of
             (s2, effects) \<Rightarrow> (s2, PreventDefault # FetchCall url init # effects)))"

section \<open>The forms as state machines\<close>

text \<open>
  What can happen to a mounted form: the \<open>onChange\<close> handlers of the two inputs
  (\<open>setEmail(e.target.value)\<close>, \<open>setPassword(e.target.value)\<close>) and a submit, which
  carries what the external call answers if it is made.
\<close>

datatype 'o event =
  ChangeEmail string
| ChangePassword string
| Submit 'o

fun login_step :: "login_props \<Rightarrow> form_state \<Rightarrow> signin_outcome event \<Rightarrow> form_state" where
  "login_step props s (ChangeEmail v) = s\<lparr>email := v\<rparr>"
| "login_step props s (ChangePassword v) = s\<lparr>password := v\<rparr>"
| "login_step props s (Submit outcome) = fst (login_handleSubmit props (\<lambda>_ _. outcome) s)"

fun signup_step :: "signup_props \<Rightarrow> form_state \<Rightarrow> fetch_outcome event \<Rightarrow> form_state" where
  "signup_step props s (ChangeEmail v) = s\<lparr>email := v\<rparr>"
| "signup_step props s (ChangePassword v) = s\<lparr>password := v\<rparr>"
| "signup_step props s (Submit outcome) = fst (signup_handleSubmit props (\<lambda>_ _. outcome) s)"

definition login_run :: "login_props \<Rightarrow> signin_outcome event list \<Rightarrow> form_state" where
  "login_run props evs = foldl (login_step props) initialState evs"

definition signup_run :: "signup_props \<Rightarrow> fetch_outcome event list \<Rightarrow> form_state" where
  "signup_run props evs = foldl (signup_step props) initialState evs"

text \<open>
  The failed validation passes of a run from state \<open>s\<close>: the states, in order, in which a
  submit found the condition \<open>emailError || passwordError\<close> true.
\<close>

fun login_failed_passes ::
    "login_props \<Rightarrow> form_state \<Rightarrow> signin_outcome event list \<Rightarrow> form_state list" where
  "login_failed_passes props s [] = []"
| "login_failed_passes props s (ev # evs) =
     (case ev of
        Submit outcome \<Rightarrow>
          if truthy (login_validateEmail (email s)) \<or> truthy (login_validatePassword (password s))
          then [s] else []
      | _ \<Rightarrow> [])
     @ login_failed_passes props (login_step props s ev) evs"

fun signup_failed_passes ::
    "signup_props \<Rightarrow> form_state \<Rightarrow> fetch_outcome event list \<Rightarrow> form_state list" where
  "signup_failed_passes props s [] = []"
| "signup_failed_passes props s (ev # evs) =
     (case ev of
        Submit outcome \<Rightarrow>
          if truthy (signup_validateEmail (email s)) \<or> truthy (signup_validatePassword (password s))
          then [s] else []
      | _ \<Rightarrow> [])
     @ signup_failed_passes props (signup_step props s ev) evs"

text \<open>
  The field errors a failed validation pass in state \<open>s\<close> stores:
  \<open>setFieldErrors({ email: emailError, password: passwordError })\<close>.
\<close>

definition login_recorded :: "form_state \<Rightarrow> field_errors" where
  "login_recorded s =
     \<lparr>fe_email = Some (login_validateEmail (email s)),
      fe_password = Some (login_validatePassword (password s))\<rparr>"

definition signup_recorded :: "form_state \<Rightarrow> field_errors" where
  "signup_recorded s =
     \<lparr>fe_email = Some (signup_validateEmail (email s)),
      fe_password = Some (signup_validatePassword (password s))\<rparr>"

section \<open>Properties of the validators\<close>

lemmas validator_defs =
  login_validateEmail_def signup_validateEmail_def
  login_validatePassword_def signup_validatePassword_def truthy_def str_includes_def

text \<open>
  C7: a string that lacks \<open>@\<close> or lacks \<open>.\<close> (the empty string among them) gets a non-empty
  message from \<open>validateEmail\<close>, and a non-empty string that contains both gets the empty
  string, in both forms.
\<close>

theorem C7_validateEmail_at_and_dot:
  "(CHR ''@'' \<notin> set e \<or> CHR ''.'' \<notin> set e \<longrightarrow>
      login_validateEmail e \<noteq> '''' \<and> signup_validateEmail e \<noteq> '''')
   \<and> (e \<noteq> '''' \<and> CHR ''@'' \<in> set e \<and> CHR ''.'' \<in> set e \<longrightarrow>
      login_validateEmail e = '''' \<and> signup_validateEmail e = '''')"
  by (cases e) (simp_all add: validator_defs)

theorem C7_validateEmail_at_and_dot_witness:
  "CHR ''@'' \<notin> set ''a.b''
   \<and> login_validateEmail ''a.b'' \<noteq> '''' \<and> signup_validateEmail ''a.b'' \<noteq> ''''
   \<and> ''a@b.c'' \<noteq> '''' \<and> CHR ''@'' \<in> set ''a@b.c'' \<and> CHR ''.'' \<in> set ''a@b.c''
   \<and> login_validateEmail ''a@b.c'' = '''' \<and> signup_validateEmail ''a@b.c'' = ''''"
  using C7_validateEmail_at_and_dot [of "''a.b''"] C7_validateEmail_at_and_dot [of "''a@b.c''"]
  by simp

text \<open>
  C8: the signup form's \<open>validatePassword\<close> gives a non-empty message for every password
  shorter than 8 and the empty string for every password of length 8 or more; the login
  form's gives a non-empty message for the empty password only, whatever the length of
  the others.
\<close>

theorem C8_validatePassword_lengths:
  "(length p < 8 \<longrightarrow> signup_validatePassword p \<noteq> '''')
   \<and> (8 \<le> length p \<longrightarrow> signup_validatePassword p = '''')
   \<and> (login_validatePassword p \<noteq> '''' \<longleftrightarrow> p = '''')
   \<and> (p \<noteq> '''' \<longrightarrow> login_validatePassword p = '''')"
  by (auto simp: validator_defs)

theorem C8_validatePassword_lengths_witness:
  "length ''1234567'' < 8 \<and> signup_validatePassword ''1234567'' \<noteq> ''''
   \<and> 8 \<le> length ''12345678'' \<and> signup_validatePassword ''12345678'' = ''''
   \<and> login_validatePassword '''' \<noteq> ''''
   \<and> ''x'' \<noteq> '''' \<and> login_validatePassword ''x'' = ''''"
  using C8_validatePassword_lengths [of "''1234567''"] C8_validatePassword_lengths [of "''12345678''"]
    C8_validatePassword_lengths [of "''''"] C8_validatePassword_lengths [of "''x''"]
  by simp

text \<open>
  C4, as the claim states it, fails: \<open>a@b\<close> is not empty and has an \<open>@\<close>, so it does not
  lack both characters, and both forms answer "Invalid email format".
\<close>

theorem C4_rejects_missing_dot_only_counterexample:
  "''a@b'' \<noteq> '''' \<and> CHR ''@'' \<in> set ''a@b'' \<and> CHR ''.'' \<notin> set ''a@b''
   \<and> login_validateEmail ''a@b'' = ''Invalid email format''
   \<and> signup_validateEmail ''a@b'' = ''Invalid email format''"
  by (simp add: validator_defs)

text \<open>
  C4, amended: for every non-empty input, \<open>validateEmail\<close> returns "Invalid email format"
  exactly when the input lacks an \<open>@\<close> or lacks a \<open>.\<close>; an input missing only one of the
  two is rejected.
\<close>

theorem C4_invalid_format_iff_lacks_either:
  "e \<noteq> '''' \<Longrightarrow>
   (login_validateEmail e = ''Invalid email format''
      \<longleftrightarrow> CHR ''@'' \<notin> set e \<or> CHR ''.'' \<notin> set e)
   \<and> (signup_validateEmail e = ''Invalid email format''
      \<longleftrightarrow> CHR ''@'' \<notin> set e \<or> CHR ''.'' \<notin> set e)"
  by (simp add: validator_defs)

theorem C4_invalid_format_iff_lacks_either_witness:
  "''a.b'' \<noteq> '''' \<and> CHR ''@'' \<notin> set ''a.b'' \<and> CHR ''.'' \<in> set ''a.b''
   \<and> login_validateEmail ''a.b'' = ''Invalid email format''
   \<and> signup_validateEmail ''a.b'' = ''Invalid email format''"
  using C4_invalid_format_iff_lacks_either [of "''a.b''"] by simp

section \<open>The submit handlers, phase by phase\<close>

text \<open>What the part before the \<open>await\<close> does, by the outcome of validation.\<close>

lemma login_to_await_invalid:
  "truthy (login_validateEmail (email s)) \<or> truthy (login_validatePassword (password s)) \<Longrightarrow>
   login_handleSubmit_to_await s = (s\<lparr>fieldErrors := login_recorded s\<rparr>, None)"
  by (simp add: login_handleSubmit_to_await_def login_recorded_def Let_def)

lemma login_to_await_valid:
  "login_validateEmail (email s) = '''' \<Longrightarrow> login_validatePassword (password s) = '''' \<Longrightarrow>
   login_handleSubmit_to_await s =
     (s\<lparr>loading := True, error := ''''\<rparr>,
      Some \<lparr>so_email = email s, so_password = password s, so_redirect = False\<rparr>)"
  by (simp add: login_handleSubmit_to_await_def Let_def truthy_def)

lemma signup_to_await_invalid:
  "truthy (signup_validateEmail (email s)) \<or> truthy (signup_validatePassword (password s)) \<Longrightarrow>
   signup_handleSubmit_to_await props s = (s\<lparr>fieldErrors := signup_recorded s\<rparr>, None)"
  by (simp add: signup_handleSubmit_to_await_def signup_recorded_def Let_def)

lemma signup_to_await_valid:
  "signup_validateEmail (email s) = '''' \<Longrightarrow> signup_validatePassword (password s) = '''' \<Longrightarrow>
   signup_handleSubmit_to_await props s =
     (s\<lparr>loading := True, error := ''''\<rparr>,
      Some (apiEndpoint props,
            \<lparr>fi_method = ''POST'', fi_headers = [(''Content-Type'', ''application/json'')],
             fi_body = \<lparr>sp_email = email s, sp_password = password s\<rparr>\<rparr>))"
  by (simp add: signup_handleSubmit_to_await_def Let_def truthy_def)

lemma login_handleSubmit_invalid:
  "truthy (login_validateEmail (email s)) \<or> truthy (login_validatePassword (password s)) \<Longrightarrow>
   login_handleSubmit props signIn s = (s\<lparr>fieldErrors := login_recorded s\<rparr>, [PreventDefault])"
  by (simp add: login_handleSubmit_def login_to_await_invalid)

lemma signup_handleSubmit_invalid:
  "truthy (signup_validateEmail (email s)) \<or> truthy (signup_validatePassword (password s)) \<Longrightarrow>
   signup_handleSubmit props fetch s = (s\<lparr>fieldErrors := signup_recorded s\<rparr>, [PreventDefault])"
  by (simp add: signup_handleSubmit_def signup_to_await_invalid)

lemma login_handleSubmit_valid:
  "login_validateEmail (email s) = '''' \<Longrightarrow> login_validatePassword (password s) = '''' \<Longrightarrow>
   login_handleSubmit props signIn s =
     (fst (login_handleSubmit_resume props
             (signIn ''credentials'' \<lparr>so_email = email s, so_password = password s, so_redirect = False\<rparr>)
             (s\<lparr>loading := True, error := ''''\<rparr>)),
      PreventDefault
      # SignInCall ''credentials'' \<lparr>so_email = email s, so_password = password s, so_redirect = False\<rparr>
      # snd (login_handleSubmit_resume props
             (signIn ''credentials'' \<lparr>so_email = email s, so_password = password s, so_redirect = False\<rparr>)
             (s\<lparr>loading := True, error := ''''\<rparr>)))"
  by (simp add: login_handleSubmit_def login_to_await_valid split: prod.split)

lemma signup_handleSubmit_valid:
  "signup_validateEmail (email s) = '''' \<Longrightarrow> signup_validatePassword (password s) = '''' \<Longrightarrow>
   signup_handleSubmit props fetch s =
     (fst (signup_handleSubmit_resume props
             (fetch (apiEndpoint props)
                \<lparr>fi_method = ''POST'', fi_headers = [(''Content-Type'', ''application/json'')],
                 fi_body = \<lparr>sp_email = email s, sp_password = password s\<rparr>\<rparr>)
             (s\<lparr>loading := True, error := ''''\<rparr>)),
      PreventDefault
      # FetchCall (apiEndpoint props)
          \<lparr>fi_method = ''POST'', fi_headers = [(''Content-Type'', ''application/json'')],
           fi_body = \<lparr>sp_email = email s, sp_password = password s\<rparr>\<rparr>
      # snd (signup_handleSubmit_resume props
             (fetch (apiEndpoint props)
                \<lparr>fi_method = ''POST'', fi_headers = [(''Content-Type'', ''application/json'')],
                 fi_body = \<lparr>sp_email = email s, sp_password = password s\<rparr>\<rparr>)
             (s\<lparr>loading := True, error := ''''\<rparr>)))"
  by (simp add: signup_handleSubmit_def signup_to_await_valid split: prod.split)

lemma login_valid_or_invalid:
  "(truthy (login_validateEmail (email s)) \<or> truthy (login_validatePassword (password s)))
   \<or> (login_validateEmail (email s) = '''' \<and> login_validatePassword (password s) = '''')"
  by (auto simp: truthy_def)

lemma signup_valid_or_invalid:
  "(truthy (signup_validateEmail (email s)) \<or> truthy (signup_validatePassword (password s)))
   \<or> (signup_validateEmail (email s) = '''' \<and> signup_validatePassword (password s) = '''')"
  by (auto simp: truthy_def)

text \<open>What the part after the \<open>await\<close> leaves alone, and what it always does.\<close>

lemma login_resume_frame:
  "email (fst (login_handleSubmit_resume props outcome s)) = email s
   \<and> password (fst (login_handleSubmit_resume props outcome s)) = password s
   \<and> fieldErrors (fst (login_handleSubmit_resume props outcome s)) = fieldErrors s"
  by (simp add: login_handleSubmit_resume_def split: signin_outcome.split)

lemma signup_resume_frame:
  "email (fst (signup_handleSubmit_resume props outcome s)) = email s
   \<and> password (fst (signup_handleSubmit_resume props outcome s)) = password s
   \<and> fieldErrors (fst (signup_handleSubmit_resume props outcome s)) = fieldErrors s"
  by (simp add: signup_handleSubmit_resume_def signup_try_def
      split: fetch_outcome.split json_outcome.split json_data.split)

lemma signup_resume_loading:
  "loading (fst (signup_handleSubmit_resume props outcome s)) = False"
  by (simp add: signup_handleSubmit_resume_def split: sum.split prod.split)

lemma login_handleSubmit_frame:
  "email (fst (login_handleSubmit props signIn s)) = email s
   \<and> password (fst (login_handleSubmit props signIn s)) = password s"
  using login_valid_or_invalid [of s]
  by (auto simp: login_handleSubmit_invalid login_handleSubmit_valid login_resume_frame)

lemma signup_handleSubmit_frame:
  "email (fst (signup_handleSubmit props fetch s)) = email s
   \<and> password (fst (signup_handleSubmit props fetch s)) = password s"
  using signup_valid_or_invalid [of s]
  by (auto simp: signup_handleSubmit_invalid signup_handleSubmit_valid signup_resume_frame)

lemma login_handleSubmit_fieldErrors:
  "fieldErrors (fst (login_handleSubmit props signIn s)) =
     (if truthy (login_validateEmail (email s)) \<or> truthy (login_validatePassword (password s))
      then login_recorded s else fieldErrors s)"
  using login_valid_or_invalid [of s]
  by (auto simp: login_handleSubmit_invalid login_handleSubmit_valid login_resume_frame truthy_def)

lemma signup_handleSubmit_fieldErrors:
  "fieldErrors (fst (signup_handleSubmit props fetch s)) =
     (if truthy (signup_validateEmail (email s)) \<or> truthy (signup_validatePassword (password s))
      then signup_recorded s else fieldErrors s)"
  using signup_valid_or_invalid [of s]
  by (auto simp: signup_handleSubmit_invalid signup_handleSubmit_valid signup_resume_frame truthy_def)

text \<open>
  The login form does not catch a rejected \<open>signIn\<close> promise: the flag set before the call
  stays set and no top-level error is stored.
\<close>

lemma login_rejected_signIn_keeps_loading:
  "login_validateEmail (email s) = '''' \<Longrightarrow> login_validatePassword (password s) = '''' \<Longrightarrow>
   signIn ''credentials'' \<lparr>so_email = email s, so_password = password s, so_redirect = False\<rparr>
     = SignInRejected \<Longrightarrow>
   fst (login_handleSubmit props signIn s) = s\<lparr>loading := True, error := ''''\<rparr>"
  by (simp add: login_handleSubmit_valid login_handleSubmit_resume_def)

section \<open>Runs of the forms\<close>

text \<open>
  The field errors after a run are those of the state the run started in, unless a submit
  failed validation on the way; then they are what the last such submit stored.
\<close>

lemma login_run_fieldErrors:
  "fieldErrors (foldl (login_step props) s evs) =
     (case login_failed_passes props s evs of
        [] \<Rightarrow> fieldErrors s
      | p # ps \<Rightarrow> login_recorded (last (p # ps)))"
proof (induction evs arbitrary: s)
  case Nil
  show ?case by simp
next
  case (Cons ev evs)
  show ?case
  proof (cases ev)
    case (Submit outcome)
    then show ?thesis
      using Cons.IH [of "login_step props s ev"]
      by (simp add: login_handleSubmit_fieldErrors split: list.split)
  qed (use Cons.IH [of "login_step props s ev"] in \<open>simp_all split: list.split\<close>)
qed

lemma signup_run_fieldErrors:
  "fieldErrors (foldl (signup_step props) s evs) =
     (case signup_failed_passes props s evs of
        [] \<Rightarrow> fieldErrors s
      | p # ps \<Rightarrow> signup_recorded (last (p # ps)))"
proof (induction evs arbitrary: s)
  case Nil
  show ?case by simp
next
  case (Cons ev evs)
  show ?case
  proof (cases ev)
    case (Submit outcome)
    then show ?thesis
      using Cons.IH [of "signup_step props s ev"]
      by (simp add: signup_handleSubmit_fieldErrors split: list.split)
  qed (use Cons.IH [of "signup_step props s ev"] in \<open>simp_all split: list.split\<close>)
qed

lemma login_failed_passes_invalid:
  "p \<in> set (login_failed_passes props s evs) \<Longrightarrow>
   truthy (login_validateEmail (email p)) \<or> truthy (login_validatePassword (password p))"
  by (induction evs arbitrary: s) (auto split: event.splits if_splits)

lemma signup_failed_passes_invalid:
  "p \<in> set (signup_failed_passes props s evs) \<Longrightarrow>
   truthy (signup_validateEmail (email p)) \<or> truthy (signup_validatePassword (password p))"
  by (induction evs arbitrary: s) (auto split: event.splits if_splits)

lemmas model_defs =
  login_validateEmail_def signup_validateEmail_def login_validatePassword_def
  signup_validatePassword_def truthy_def str_includes_def initialState_def result_error_def
  redirectUrl_def apiEndpoint_def loginUrl_def
  login_handleSubmit_to_await_def login_handleSubmit_resume_def login_handleSubmit_def
  signup_handleSubmit_to_await_def signup_try_def signup_handleSubmit_resume_def
  signup_handleSubmit_def login_run_def signup_run_def login_recorded_def signup_recorded_def

section \<open>Submit with a failing validator\<close>

text \<open>
  C5: when a validator returns a non-empty message, \<open>handleSubmit\<close> stores the messages of
  both fields in one \<open>setFieldErrors\<close> (the passing field's empty message included), changes
  nothing else and makes no external call: its only effect is \<open>preventDefault\<close>, whatever
  the adapter would answer. With email \<open>bad\<close> and an empty password the stored field errors
  are "Invalid email format" and "Password is required".
\<close>

theorem C5_invalid_submit_records_both_messages:
  "(truthy (login_validateEmail (email s)) \<or> truthy (login_validatePassword (password s)) \<longrightarrow>
      login_handleSubmit lprops signIn s =
        (s\<lparr>fieldErrors := \<lparr>fe_email = Some (login_validateEmail (email s)),
                           fe_password = Some (login_validatePassword (password s))\<rparr>\<rparr>,
         [PreventDefault]))
   \<and> (truthy (signup_validateEmail (email t)) \<or> truthy (signup_validatePassword (password t)) \<longrightarrow>
      signup_handleSubmit sprops fetch t =
        (t\<lparr>fieldErrors := \<lparr>fe_email = Some (signup_validateEmail (email t)),
                           fe_password = Some (signup_validatePassword (password t))\<rparr>\<rparr>,
         [PreventDefault]))
   \<and> (email s = ''bad'' \<and> password s = '''' \<longrightarrow>
      fieldErrors (fst (login_handleSubmit lprops signIn s)) =
        \<lparr>fe_email = Some ''Invalid email format'', fe_password = Some ''Password is required''\<rparr>
      \<and> snd (login_handleSubmit lprops signIn s) = [PreventDefault])
   \<and> (email t = ''bad'' \<and> password t = '''' \<longrightarrow>
      fieldErrors (fst (signup_handleSubmit sprops fetch t)) =
        \<lparr>fe_email = Some ''Invalid email format'', fe_password = Some ''Password is required''\<rparr>
      \<and> snd (signup_handleSubmit sprops fetch t) = [PreventDefault])"
proof -
  have a: "email u = ''bad'' \<and> password u = '''' \<longrightarrow>
      truthy (login_validateEmail (email u)) \<and> truthy (signup_validateEmail (email u))
      \<and> login_recorded u =
          \<lparr>fe_email = Some ''Invalid email format'', fe_password = Some ''Password is required''\<rparr>
      \<and> signup_recorded u =
          \<lparr>fe_email = Some ''Invalid email format'', fe_password = Some ''Password is required''\<rparr>"
    for u
    by (simp add: validator_defs login_recorded_def signup_recorded_def)
  show ?thesis
    using a [of s] a [of t]
    by (auto simp: login_handleSubmit_invalid signup_handleSubmit_invalid
        login_recorded_def [symmetric] signup_recorded_def [symmetric])
qed

theorem C5_invalid_submit_records_both_messages_witness:
  "truthy (login_validateEmail ''bad'')
   \<and> login_handleSubmit \<lparr>lp_onSuccess = True, lp_redirectUrl = None, lp_signupUrl = None\<rparr>
        (\<lambda>provider options. SignInResolved None)
        \<lparr>email = ''bad'', password = '''', loading = False, error = '''',
         fieldErrors = \<lparr>fe_email = None, fe_password = None\<rparr>\<rparr>
     = (\<lparr>email = ''bad'', password = '''', loading = False, error = '''',
         fieldErrors = \<lparr>fe_email = Some ''Invalid email format'',
                        fe_password = Some ''Password is required''\<rparr>\<rparr>,
        [PreventDefault])
   \<and> truthy (signup_validatePassword ''short'')
   \<and> signup_handleSubmit \<lparr>sp_apiEndpoint = None, sp_onSuccess = True, sp_loginUrl = None\<rparr>
        (\<lambda>url init. FetchResolved \<lparr>ok = True, json = JsonRejected\<rparr>)
        \<lparr>email = ''a@b.com'', password = ''short'', loading = False, error = '''',
         fieldErrors = \<lparr>fe_email = None, fe_password = None\<rparr>\<rparr>
     = (\<lparr>email = ''a@b.com'', password = ''short'', loading = False, error = '''',
         fieldErrors = \<lparr>fe_email = Some '''',
                        fe_password = Some ''Password must be at least 8 characters''\<rparr>\<rparr>,
        [PreventDefault])
   \<and> signup_handleSubmit \<lparr>sp_apiEndpoint = None, sp_onSuccess = True, sp_loginUrl = None\<rparr>
        (\<lambda>url init. FetchResolved \<lparr>ok = True, json = JsonRejected\<rparr>)
        \<lparr>email = ''bad'', password = '''', loading = False, error = '''',
         fieldErrors = \<lparr>fe_email = None, fe_password = None\<rparr>\<rparr>
     = (\<lparr>email = ''bad'', password = '''', loading = False, error = '''',
         fieldErrors = \<lparr>fe_email = Some ''Invalid email format'',
                        fe_password = Some ''Password is required''\<rparr>\<rparr>,
        [PreventDefault])"
  using C5_invalid_submit_records_both_messages
    [of "\<lparr>email = ''bad'', password = '''', loading = False, error = '''',
          fieldErrors = \<lparr>fe_email = None, fe_password = None\<rparr>\<rparr>"
        "\<lparr>lp_onSuccess = True, lp_redirectUrl = None, lp_signupUrl = None\<rparr>"
        "\<lambda>provider options. SignInResolved None"
        "\<lparr>email = ''a@b.com'', password = ''short'', loading = False, error = '''',
          fieldErrors = \<lparr>fe_email = None, fe_password = None\<rparr>\<rparr>"
        "\<lparr>sp_apiEndpoint = None, sp_onSuccess = True, sp_loginUrl = None\<rparr>"
        "\<lambda>url init. FetchResolved \<lparr>ok = True, json = JsonRejected\<rparr>"]
    C5_invalid_submit_records_both_messages
    [of "\<lparr>email = ''bad'', password = '''', loading = False, error = '''',
          fieldErrors = \<lparr>fe_email = None, fe_password = None\<rparr>\<rparr>"
        "\<lparr>lp_onSuccess = True, lp_redirectUrl = None, lp_signupUrl = None\<rparr>"
        "\<lambda>provider options. SignInResolved None"
        "\<lparr>email = ''bad'', password = '''', loading = False, error = '''',
          fieldErrors = \<lparr>fe_email = None, fe_password = None\<rparr>\<rparr>"
        "\<lparr>sp_apiEndpoint = None, sp_onSuccess = True, sp_loginUrl = None\<rparr>"
        "\<lambda>url init. FetchResolved \<lparr>ok = True, json = JsonRejected\<rparr>"]
  by (simp add: model_defs)

section \<open>Submit with passing validators\<close>

text \<open>
  C1, as the claim states it, fails. After a submit that failed validation the user corrects
  both fields; at the next submit both validators return the empty string, \<open>signIn\<close> is
  called, and the field errors of the failed pass are still stored.
\<close>

theorem C1_field_errors_cleared_counterexample:
  "login_run \<lparr>lp_onSuccess = False, lp_redirectUrl = None, lp_signupUrl = None\<rparr>
      [ChangeEmail ''bad'', Submit (SignInResolved None),
       ChangeEmail ''a@b.com'', ChangePassword ''secret'']
     = \<lparr>email = ''a@b.com'', password = ''secret'', loading = False, error = '''',
        fieldErrors = \<lparr>fe_email = Some ''Invalid email format'',
                       fe_password = Some ''Password is required''\<rparr>\<rparr>
   \<and> login_validateEmail ''a@b.com'' = '''' \<and> login_validatePassword ''secret'' = ''''
   \<and> login_handleSubmit_to_await
        \<lparr>email = ''a@b.com'', password = ''secret'', loading = False, error = '''',
         fieldErrors = \<lparr>fe_email = Some ''Invalid email format'',
                        fe_password = Some ''Password is required''\<rparr>\<rparr>
     = (\<lparr>email = ''a@b.com'', password = ''secret'', loading = True, error = '''',
         fieldErrors = \<lparr>fe_email = Some ''Invalid email format'',
                        fe_password = Some ''Password is required''\<rparr>\<rparr>,
        Some \<lparr>so_email = ''a@b.com'', so_password = ''secret'', so_redirect = False\<rparr>)"
  by (simp add: model_defs)

text \<open>
  C1, amended: on a submit at which both validators return the empty string, whatever the
  field errors are, \<open>handleSubmit\<close> reaches the adapter call with the field errors as they
  were, the flag \<open>loading\<close> set and the top-level error cleared; and the field errors of a
  form are non-empty only after some submit has failed validation.
\<close>

theorem C1_valid_submit_keeps_field_errors:
  "(login_validateEmail (email s) = '''' \<and> login_validatePassword (password s) = '''' \<longrightarrow>
      fieldErrors (fst (login_handleSubmit_to_await s)) = fieldErrors s
      \<and> loading (fst (login_handleSubmit_to_await s)) = True
      \<and> error (fst (login_handleSubmit_to_await s)) = ''''
      \<and> snd (login_handleSubmit_to_await s) =
          Some \<lparr>so_email = email s, so_password = password s, so_redirect = False\<rparr>)
   \<and> (signup_validateEmail (email t) = '''' \<and> signup_validatePassword (password t) = '''' \<longrightarrow>
      fieldErrors (fst (signup_handleSubmit_to_await sprops t)) = fieldErrors t
      \<and> loading (fst (signup_handleSubmit_to_await sprops t)) = True
      \<and> error (fst (signup_handleSubmit_to_await sprops t)) = ''''
      \<and> snd (signup_handleSubmit_to_await sprops t) =
          Some (apiEndpoint sprops,
                \<lparr>fi_method = ''POST'', fi_headers = [(''Content-Type'', ''application/json'')],
                 fi_body = \<lparr>sp_email = email t, sp_password = password t\<rparr>\<rparr>))
   \<and> (fieldErrors (login_run lprops levs) \<noteq> \<lparr>fe_email = None, fe_password = None\<rparr> \<longrightarrow>
      login_failed_passes lprops initialState levs \<noteq> [])
   \<and> (fieldErrors (signup_run sprops sevs) \<noteq> \<lparr>fe_email = None, fe_password = None\<rparr> \<longrightarrow>
      signup_failed_passes sprops initialState sevs \<noteq> [])"
proof -
  have l: "fieldErrors (login_run lprops levs) \<noteq> \<lparr>fe_email = None, fe_password = None\<rparr> \<longrightarrow>
      login_failed_passes lprops initialState levs \<noteq> []"
    by (simp add: login_run_def login_run_fieldErrors initialState_def split: list.split)
  have r: "fieldErrors (signup_run sprops sevs) \<noteq> \<lparr>fe_email = None, fe_password = None\<rparr> \<longrightarrow>
      signup_failed_passes sprops initialState sevs \<noteq> []"
    by (simp add: signup_run_def signup_run_fieldErrors initialState_def split: list.split)
  show ?thesis
    using l r by (simp add: login_to_await_valid signup_to_await_valid)
qed

theorem C1_valid_submit_keeps_field_errors_witness:
  "login_validateEmail ''a@b.com'' = '''' \<and> login_validatePassword ''secret'' = ''''
   \<and> fieldErrors (fst (login_handleSubmit_to_await
        \<lparr>email = ''a@b.com'', password = ''secret'', loading = False, error = ''old'',
         fieldErrors = \<lparr>fe_email = Some ''Invalid email format'', fe_password = Some ''''\<rparr>\<rparr>))
      = \<lparr>fe_email = Some ''Invalid email format'', fe_password = Some ''''\<rparr>
   \<and> signup_validateEmail ''a@b.com'' = '''' \<and> signup_validatePassword ''longenough1'' = ''''
   \<and> fieldErrors (fst (signup_handleSubmit_to_await
        \<lparr>sp_apiEndpoint = None, sp_onSuccess = False, sp_loginUrl = None\<rparr>
        \<lparr>email = ''a@b.com'', password = ''longenough1'', loading = False, error = ''old'',
         fieldErrors = \<lparr>fe_email = Some '''',
                        fe_password = Some ''Password must be at least 8 characters''\<rparr>\<rparr>))
      = \<lparr>fe_email = Some '''', fe_password = Some ''Password must be at least 8 characters''\<rparr>
   \<and> fieldErrors (login_run \<lparr>lp_onSuccess = False, lp_redirectUrl = None, lp_signupUrl = None\<rparr>
        [ChangeEmail ''bad'', Submit SignInRejected])
      \<noteq> \<lparr>fe_email = None, fe_password = None\<rparr>
   \<and> login_failed_passes \<lparr>lp_onSuccess = False, lp_redirectUrl = None, lp_signupUrl = None\<rparr>
        initialState [ChangeEmail ''bad'', Submit SignInRejected] \<noteq> []
   \<and> fieldErrors (signup_run \<lparr>sp_apiEndpoint = None, sp_onSuccess = False, sp_loginUrl = None\<rparr>
        [ChangeEmail ''bad'', Submit FetchRejected])
      \<noteq> \<lparr>fe_email = None, fe_password = None\<rparr>
   \<and> signup_failed_passes \<lparr>sp_apiEndpoint = None, sp_onSuccess = False, sp_loginUrl = None\<rparr>
        initialState [ChangeEmail ''bad'', Submit FetchRejected] \<noteq> []"
  using C1_valid_submit_keeps_field_errors
    [of "\<lparr>email = ''a@b.com'', password = ''secret'', loading = False, error = ''old'',
          fieldErrors = \<lparr>fe_email = Some ''Invalid email format'', fe_password = Some ''''\<rparr>\<rparr>"
        "\<lparr>email = ''a@b.com'', password = ''longenough1'', loading = False, error = ''old'',
          fieldErrors = \<lparr>fe_email = Some '''',
                         fe_password = Some ''Password must be at least 8 characters''\<rparr>\<rparr>"
        "\<lparr>sp_apiEndpoint = None, sp_onSuccess = False, sp_loginUrl = None\<rparr>"
        "\<lparr>lp_onSuccess = False, lp_redirectUrl = None, lp_signupUrl = None\<rparr>"
        "[ChangeEmail ''bad'', Submit SignInRejected]"
        "[ChangeEmail ''bad'', Submit FetchRejected]"]
  by (simp add: model_defs)

text \<open>
  C3, as the claim states it, fails. A submit with email \<open>bad\<close> and password \<open>x\<close> stores an
  entry for the password, which passes validation, carrying the empty message; and when the
  email is then corrected, its entry stays with the old message.
\<close>

theorem C3_stale_and_empty_entries_counterexample:
  "login_run \<lparr>lp_onSuccess = False, lp_redirectUrl = None, lp_signupUrl = None\<rparr>
      [ChangeEmail ''bad'', ChangePassword ''x'', Submit (SignInResolved None)]
     = \<lparr>email = ''bad'', password = ''x'', loading = False, error = '''',
        fieldErrors = \<lparr>fe_email = Some ''Invalid email format'', fe_password = Some ''''\<rparr>\<rparr>
   \<and> login_validatePassword ''x'' = ''''
   \<and> login_run \<lparr>lp_onSuccess = False, lp_redirectUrl = None, lp_signupUrl = None\<rparr>
      [ChangeEmail ''bad'', ChangePassword ''x'', Submit (SignInResolved None), ChangeEmail ''a@b.com'']
     = \<lparr>email = ''a@b.com'', password = ''x'', loading = False, error = '''',
        fieldErrors = \<lparr>fe_email = Some ''Invalid email format'', fe_password = Some ''''\<rparr>\<rparr>
   \<and> login_validateEmail ''a@b.com'' = ''''"
  by (simp add: model_defs)

text \<open>
  C3, amended: in every state a form reaches, the field errors are empty when no submit has
  failed validation so far; otherwise both entries are present and hold the messages the two
  validators returned at the last submit that failed validation (at which one of the two was
  non-empty), the empty message for a field that passed then, whatever the fields hold now.
\<close>

theorem C3_field_errors_hold_last_failed_pass:
  "fieldErrors (login_run lprops levs) =
     (case login_failed_passes lprops initialState levs of
        [] \<Rightarrow> \<lparr>fe_email = None, fe_password = None\<rparr>
      | p # ps \<Rightarrow>
          \<lparr>fe_email = Some (login_validateEmail (email (last (p # ps)))),
           fe_password = Some (login_validatePassword (password (last (p # ps))))\<rparr>)
   \<and> (\<forall>p \<in> set (login_failed_passes lprops initialState levs).
          truthy (login_validateEmail (email p)) \<or> truthy (login_validatePassword (password p)))
   \<and> fieldErrors (signup_run sprops sevs) =
     (case signup_failed_passes sprops initialState sevs of
        [] \<Rightarrow> \<lparr>fe_email = None, fe_password = None\<rparr>
      | p # ps \<Rightarrow>
          \<lparr>fe_email = Some (signup_validateEmail (email (last (p # ps)))),
           fe_password = Some (signup_validatePassword (password (last (p # ps))))\<rparr>)
   \<and> (\<forall>p \<in> set (signup_failed_passes sprops initialState sevs).
          truthy (signup_validateEmail (email p)) \<or> truthy (signup_validatePassword (password p)))"
proof -
  have l: "fieldErrors (login_run lprops levs) =
     (case login_failed_passes lprops initialState levs of
        [] \<Rightarrow> \<lparr>fe_email = None, fe_password = None\<rparr>
      | p # ps \<Rightarrow> login_recorded (last (p # ps)))"
    by (simp add: login_run_def login_run_fieldErrors initialState_def split: list.split)
  have r: "fieldErrors (signup_run sprops sevs) =
     (case signup_failed_passes sprops initialState sevs of
        [] \<Rightarrow> \<lparr>fe_email = None, fe_password = None\<rparr>
      | p # ps \<Rightarrow> signup_recorded (last (p # ps)))"
    by (simp add: signup_run_def signup_run_fieldErrors initialState_def split: list.split)
  show ?thesis
    using l r login_failed_passes_invalid signup_failed_passes_invalid
    unfolding login_recorded_def signup_recorded_def by blast
qed

theorem C3_field_errors_hold_last_failed_pass_witness:
  "fieldErrors (login_run \<lparr>lp_onSuccess = False, lp_redirectUrl = None, lp_signupUrl = None\<rparr>
      [ChangeEmail ''bad'', ChangePassword ''x'', Submit SignInRejected, ChangeEmail ''a@b.com''])
     = \<lparr>fe_email = Some ''Invalid email format'', fe_password = Some ''''\<rparr>
   \<and> login_failed_passes \<lparr>lp_onSuccess = False, lp_redirectUrl = None, lp_signupUrl = None\<rparr>
        initialState [ChangeEmail ''bad'', ChangePassword ''x'', Submit SignInRejected, ChangeEmail ''a@b.com'']
     = [\<lparr>email = ''bad'', password = ''x'', loading = False, error = '''',
         fieldErrors = \<lparr>fe_email = None, fe_password = None\<rparr>\<rparr>]
   \<and> truthy (login_validateEmail ''bad'')
   \<and> fieldErrors (signup_run \<lparr>sp_apiEndpoint = None, sp_onSuccess = False, sp_loginUrl = None\<rparr>
      [ChangeEmail ''a@b.com'', ChangePassword ''short'', Submit FetchRejected])
     = \<lparr>fe_email = Some '''', fe_password = Some ''Password must be at least 8 characters''\<rparr>
   \<and> signup_failed_passes \<lparr>sp_apiEndpoint = None, sp_onSuccess = False, sp_loginUrl = None\<rparr>
        initialState [ChangeEmail ''a@b.com'', ChangePassword ''short'', Submit FetchRejected]
     = [\<lparr>email = ''a@b.com'', password = ''short'', loading = False, error = '''',
         fieldErrors = \<lparr>fe_email = None, fe_password = None\<rparr>\<rparr>]
   \<and> truthy (signup_validatePassword ''short'')"
  using C3_field_errors_hold_last_failed_pass
    [of "\<lparr>lp_onSuccess = False, lp_redirectUrl = None, lp_signupUrl = None\<rparr>"
        "[ChangeEmail ''bad'', ChangePassword ''x'', Submit SignInRejected, ChangeEmail ''a@b.com'']"
        "\<lparr>sp_apiEndpoint = None, sp_onSuccess = False, sp_loginUrl = None\<rparr>"
        "[ChangeEmail ''a@b.com'', ChangePassword ''short'', Submit FetchRejected]"]
  by (simp add: model_defs)

section \<open>Outcomes of the external call\<close>

text \<open>
  C2: when the adapter reports success, both forms call the callback if there is one and
  navigate to the default path otherwise. The signup form then has \<open>loading\<close> cleared (its
  \<open>finally\<close> block). The login form has not: \<open>setLoading(false)\<close> is in its failure branch only,
  and \<open>loading\<close> is still set when \<open>handleSubmit\<close> is done.
\<close>

theorem C2_success_loading_flag:
  "(login_validateEmail (email s) = '''' \<and> login_validatePassword (password s) = ''''
    \<and> signIn ''credentials'' \<lparr>so_email = email s, so_password = password s, so_redirect = False\<rparr>
        = SignInResolved result
    \<and> \<not> result_error result \<longrightarrow>
      loading (fst (login_handleSubmit lprops signIn s)) = True
      \<and> snd (login_handleSubmit lprops signIn s) =
          [PreventDefault,
           SignInCall ''credentials''
             \<lparr>so_email = email s, so_password = password s, so_redirect = False\<rparr>,
           if lp_onSuccess lprops then OnSuccessCall else Navigate (redirectUrl lprops)])
   \<and> (signup_validateEmail (email t) = '''' \<and> signup_validatePassword (password t) = ''''
    \<and> fetch (apiEndpoint sprops)
         \<lparr>fi_method = ''POST'', fi_headers = [(''Content-Type'', ''application/json'')],
          fi_body = \<lparr>sp_email = email t, sp_password = password t\<rparr>\<rparr> = FetchResolved r
    \<and> ok r \<longrightarrow>
      loading (fst (signup_handleSubmit sprops fetch t)) = False
      \<and> snd (signup_handleSubmit sprops fetch t) =
          [PreventDefault,
           FetchCall (apiEndpoint sprops)
             \<lparr>fi_method = ''POST'', fi_headers = [(''Content-Type'', ''application/json'')],
              fi_body = \<lparr>sp_email = email t, sp_password = password t\<rparr>\<rparr>,
           if sp_onSuccess sprops then OnSuccessCall else Navigate (loginUrl sprops)])"
  by (simp add: login_handleSubmit_valid signup_handleSubmit_valid login_handleSubmit_resume_def
      signup_handleSubmit_resume_def signup_try_def)

theorem C2_success_loading_flag_witness:
  "login_validateEmail ''a@b.com'' = '''' \<and> login_validatePassword ''secret'' = ''''
   \<and> \<not> result_error (Some \<lparr>sr_error = None\<rparr>)
   \<and> login_handleSubmit \<lparr>lp_onSuccess = True, lp_redirectUrl = None, lp_signupUrl = None\<rparr>
        (\<lambda>provider options. SignInResolved (Some \<lparr>sr_error = None\<rparr>))
        \<lparr>email = ''a@b.com'', password = ''secret'', loading = False, error = '''',
         fieldErrors = \<lparr>fe_email = None, fe_password = None\<rparr>\<rparr>
     = (\<lparr>email = ''a@b.com'', password = ''secret'', loading = True, error = '''',
         fieldErrors = \<lparr>fe_email = None, fe_password = None\<rparr>\<rparr>,
        [PreventDefault,
         SignInCall ''credentials''
           \<lparr>so_email = ''a@b.com'', so_password = ''secret'', so_redirect = False\<rparr>,
         OnSuccessCall])
   \<and> signup_validateEmail ''a@b.com'' = '''' \<and> signup_validatePassword ''longenough1'' = ''''
   \<and> signup_handleSubmit \<lparr>sp_apiEndpoint = None, sp_onSuccess = True, sp_loginUrl = None\<rparr>
        (\<lambda>url init. FetchResolved \<lparr>ok = True, json = JsonRejected\<rparr>)
        \<lparr>email = ''a@b.com'', password = ''longenough1'', loading = False, error = '''',
         fieldErrors = \<lparr>fe_email = None, fe_password = None\<rparr>\<rparr>
     = (\<lparr>email = ''a@b.com'', password = ''longenough1'', loading = False, error = '''',
         fieldErrors = \<lparr>fe_email = None, fe_password = None\<rparr>\<rparr>,
        [PreventDefault,
         FetchCall ''/api/auth/signup''
           \<lparr>fi_method = ''POST'', fi_headers = [(''Content-Type'', ''application/json'')],
            fi_body = \<lparr>sp_email = ''a@b.com'', sp_password = ''longenough1''\<rparr>\<rparr>,
         OnSuccessCall])"
  using C2_success_loading_flag
    [of "\<lparr>email = ''a@b.com'', password = ''secret'', loading = False, error = '''',
          fieldErrors = \<lparr>fe_email = None, fe_password = None\<rparr>\<rparr>"
        "\<lambda>provider options. SignInResolved (Some \<lparr>sr_error = None\<rparr>)"
        "Some \<lparr>sr_error = None\<rparr>"
        "\<lparr>lp_onSuccess = True, lp_redirectUrl = None, lp_signupUrl = None\<rparr>"
        "\<lparr>email = ''a@b.com'', password = ''longenough1'', loading = False, error = '''',
          fieldErrors = \<lparr>fe_email = None, fe_password = None\<rparr>\<rparr>"
        "\<lambda>url init. FetchResolved \<lparr>ok = True, json = JsonRejected\<rparr>"
        "\<lparr>sp_apiEndpoint = None, sp_onSuccess = True, sp_loginUrl = None\<rparr>"
        "\<lparr>ok = True, json = JsonRejected\<rparr>"]
  by (simp add: model_defs)

text \<open>
  C6, as the claim states it, fails: a failure with no parseable message does not always
  end in one fallback string of the form. In the signup form a status that is not ok gives
  "Signup failed" when the parsed body has no \<open>error\<close>, and "Something went wrong" when the
  body does not parse. In the login form a rejected \<open>signIn\<close> promise is caught nowhere and
  the top-level error stays empty (the defect reported under C9).
\<close>

theorem C6_no_single_fallback_counterexample:
  "signup_run \<lparr>sp_apiEndpoint = None, sp_onSuccess = False, sp_loginUrl = None\<rparr>
      [ChangeEmail ''a@b.com'', ChangePassword ''longenough1'',
       Submit (FetchResolved \<lparr>ok = False, json = JsonResolved (DataObject None)\<rparr>)]
     = \<lparr>email = ''a@b.com'', password = ''longenough1'', loading = False,
        error = ''Signup failed'',
        fieldErrors = \<lparr>fe_email = None, fe_password = None\<rparr>\<rparr>
   \<and> signup_run \<lparr>sp_apiEndpoint = None, sp_onSuccess = False, sp_loginUrl = None\<rparr>
      [ChangeEmail ''a@b.com'', ChangePassword ''longenough1'',
       Submit (FetchResolved \<lparr>ok = False, json = JsonRejected\<rparr>)]
     = \<lparr>email = ''a@b.com'', password = ''longenough1'', loading = False,
        error = ''Something went wrong'',
        fieldErrors = \<lparr>fe_email = None, fe_password = None\<rparr>\<rparr>
   \<and> ''Signup failed'' \<noteq> ''Something went wrong''
   \<and> login_run \<lparr>lp_onSuccess = False, lp_redirectUrl = None, lp_signupUrl = None\<rparr>
      [ChangeEmail ''a@b.com'', ChangePassword ''secret'', Submit SignInRejected]
     = \<lparr>email = ''a@b.com'', password = ''secret'', loading = True, error = '''',
        fieldErrors = \<lparr>fe_email = None, fe_password = None\<rparr>\<rparr>"
  by (simp add: model_defs)

text \<open>
  C6, amended: when the login adapter's result carries an error, the top-level error is
  "Invalid email or password". When the signup endpoint answers with a status that is not
  ok, the top-level error is the non-empty \<open>error\<close> string of the parsed body, verbatim; with
  no such string it is one of two fixed strings: "Signup failed" when the parsed body has no
  \<open>error\<close> or an empty one, and "Something went wrong" when the body does not parse or is
  \<open>null\<close>, as when the request itself fails.
\<close>

theorem C6_top_level_error_on_adapter_failure:
  "(login_validateEmail (email s) = '''' \<and> login_validatePassword (password s) = ''''
    \<and> signIn ''credentials'' \<lparr>so_email = email s, so_password = password s, so_redirect = False\<rparr>
        = SignInResolved result
    \<and> result_error result \<longrightarrow>
      error (fst (login_handleSubmit lprops signIn s)) = ''Invalid email or password'')
   \<and> (signup_validateEmail (email t) = '''' \<and> signup_validatePassword (password t) = ''''
    \<and> fetch (apiEndpoint sprops)
         \<lparr>fi_method = ''POST'', fi_headers = [(''Content-Type'', ''application/json'')],
          fi_body = \<lparr>sp_email = email t, sp_password = password t\<rparr>\<rparr> = FetchResolved r
    \<and> \<not> ok r \<longrightarrow>
      (json r = JsonResolved (DataObject (Some m)) \<and> m \<noteq> '''' \<longrightarrow>
         error (fst (signup_handleSubmit sprops fetch t)) = m)
      \<and> (json r = JsonResolved (DataObject None) \<or> json r = JsonResolved (DataObject (Some ''''))
           \<longrightarrow> error (fst (signup_handleSubmit sprops fetch t)) = ''Signup failed'')
      \<and> (json r = JsonRejected \<or> json r = JsonResolved DataNull
           \<longrightarrow> error (fst (signup_handleSubmit sprops fetch t)) = ''Something went wrong''))
   \<and> (signup_validateEmail (email t) = '''' \<and> signup_validatePassword (password t) = ''''
    \<and> fetch (apiEndpoint sprops)
         \<lparr>fi_method = ''POST'', fi_headers = [(''Content-Type'', ''application/json'')],
          fi_body = \<lparr>sp_email = email t, sp_password = password t\<rparr>\<rparr> = FetchRejected
    \<longrightarrow> error (fst (signup_handleSubmit sprops fetch t)) = ''Something went wrong'')"
  by (auto simp: login_handleSubmit_valid signup_handleSubmit_valid login_handleSubmit_resume_def
      signup_handleSubmit_resume_def signup_try_def truthy_def)

theorem C6_top_level_error_on_adapter_failure_witness:
  "login_validateEmail ''a@b.com'' = '''' \<and> login_validatePassword ''secret'' = ''''
   \<and> result_error (Some \<lparr>sr_error = Some ''CredentialsSignin''\<rparr>)
   \<and> error (fst (login_handleSubmit
        \<lparr>lp_onSuccess = False, lp_redirectUrl = None, lp_signupUrl = None\<rparr>
        (\<lambda>provider options. SignInResolved (Some \<lparr>sr_error = Some ''CredentialsSignin''\<rparr>))
        (initialState\<lparr>email := ''a@b.com'', password := ''secret''\<rparr>)))
     = ''Invalid email or password''
   \<and> signup_validateEmail ''a@b.com'' = '''' \<and> signup_validatePassword ''longenough1'' = ''''
   \<and> error (fst (signup_handleSubmit
        \<lparr>sp_apiEndpoint = None, sp_onSuccess = False, sp_loginUrl = None\<rparr>
        (\<lambda>url init. FetchResolved
           \<lparr>ok = False, json = JsonResolved (DataObject (Some ''Email already in use''))\<rparr>)
        (initialState\<lparr>email := ''a@b.com'', password := ''longenough1''\<rparr>)))
     = ''Email already in use''
   \<and> error (fst (signup_handleSubmit
        \<lparr>sp_apiEndpoint = None, sp_onSuccess = False, sp_loginUrl = None\<rparr>
        (\<lambda>url init. FetchResolved \<lparr>ok = False, json = JsonResolved (DataObject None)\<rparr>)
        (initialState\<lparr>email := ''a@b.com'', password := ''longenough1''\<rparr>)))
     = ''Signup failed''
   \<and> error (fst (signup_handleSubmit
        \<lparr>sp_apiEndpoint = None, sp_onSuccess = False, sp_loginUrl = None\<rparr>
        (\<lambda>url init. FetchResolved \<lparr>ok = False, json = JsonRejected\<rparr>)
        (initialState\<lparr>email := ''a@b.com'', password := ''longenough1''\<rparr>)))
     = ''Something went wrong''
   \<and> error (fst (signup_handleSubmit
        \<lparr>sp_apiEndpoint = None, sp_onSuccess = False, sp_loginUrl = None\<rparr>
        (\<lambda>url init. FetchRejected)
        (initialState\<lparr>email := ''a@b.com'', password := ''longenough1''\<rparr>)))
     = ''Something went wrong''"
  using
    C6_top_level_error_on_adapter_failure
      [where s = "initialState\<lparr>email := ''a@b.com'', password := ''secret''\<rparr>"
         and signIn = "\<lambda>provider options. SignInResolved (Some \<lparr>sr_error = Some ''CredentialsSignin''\<rparr>)"
         and result = "Some \<lparr>sr_error = Some ''CredentialsSignin''\<rparr>"
         and lprops = "\<lparr>lp_onSuccess = False, lp_redirectUrl = None, lp_signupUrl = None\<rparr>"
         and t = "initialState\<lparr>email := ''a@b.com'', password := ''longenough1''\<rparr>"
         and fetch = "\<lambda>url init. FetchResolved
           \<lparr>ok = False, json = JsonResolved (DataObject (Some ''Email already in use''))\<rparr>"
         and sprops = "\<lparr>sp_apiEndpoint = None, sp_onSuccess = False, sp_loginUrl = None\<rparr>"
         and r = "\<lparr>ok = False, json = JsonResolved (DataObject (Some ''Email already in use''))\<rparr>"
         and m = "''Email already in use''"]
    C6_top_level_error_on_adapter_failure
      [where s = "initialState\<lparr>email := ''a@b.com'', password := ''secret''\<rparr>"
         and signIn = "\<lambda>provider options. SignInResolved (Some \<lparr>sr_error = Some ''CredentialsSignin''\<rparr>)"
         and result = "Some \<lparr>sr_error = Some ''CredentialsSignin''\<rparr>"
         and lprops = "\<lparr>lp_onSuccess = False, lp_redirectUrl = None, lp_signupUrl = None\<rparr>"
         and t = "initialState\<lparr>email := ''a@b.com'', password := ''longenough1''\<rparr>"
         and fetch = "\<lambda>url init. FetchResolved \<lparr>ok = False, json = JsonResolved (DataObject None)\<rparr>"
         and sprops = "\<lparr>sp_apiEndpoint = None, sp_onSuccess = False, sp_loginUrl = None\<rparr>"
         and r = "\<lparr>ok = False, json = JsonResolved (DataObject None)\<rparr>"
         and m = "''x''"]
    C6_top_level_error_on_adapter_failure
      [where s = "initialState\<lparr>email := ''a@b.com'', password := ''secret''\<rparr>"
         and signIn = "\<lambda>provider options. SignInResolved (Some \<lparr>sr_error = Some ''CredentialsSignin''\<rparr>)"
         and result = "Some \<lparr>sr_error = Some ''CredentialsSignin''\<rparr>"
         and lprops = "\<lparr>lp_onSuccess = False, lp_redirectUrl = None, lp_signupUrl = None\<rparr>"
         and t = "initialState\<lparr>email := ''a@b.com'', password := ''longenough1''\<rparr>"
         and fetch = "\<lambda>url init. FetchResolved \<lparr>ok = False, json = JsonRejected\<rparr>"
         and sprops = "\<lparr>sp_apiEndpoint = None, sp_onSuccess = False, sp_loginUrl = None\<rparr>"
         and r = "\<lparr>ok = False, json = JsonRejected\<rparr>"
         and m = "''x''"]
    C6_top_level_error_on_adapter_failure
      [where s = "initialState\<lparr>email := ''a@b.com'', password := ''secret''\<rparr>"
         and signIn = "\<lambda>provider options. SignInResolved (Some \<lparr>sr_error = Some ''CredentialsSignin''\<rparr>)"
         and result = "Some \<lparr>sr_error = Some ''CredentialsSignin''\<rparr>"
         and lprops = "\<lparr>lp_onSuccess = False, lp_redirectUrl = None, lp_signupUrl = None\<rparr>"
         and t = "initialState\<lparr>email := ''a@b.com'', password := ''longenough1''\<rparr>"
         and fetch = "\<lambda>url init. FetchRejected"
         and sprops = "\<lparr>sp_apiEndpoint = None, sp_onSuccess = False, sp_loginUrl = None\<rparr>"
         and r = "\<lparr>ok = False, json = JsonRejected\<rparr>"
         and m = "''x''"]
  by (simp add: model_defs)

text \<open>
  C10: in the signup form, when the status is not ok and the body does not parse, the
  top-level error is "Something went wrong", not "Signup failed": the rejection of
  \<open>response.json()\<close> is a throw inside the \<open>try\<close> block, as the rejection of \<open>fetch\<close> is, and
  the form ends in the state a network error leaves.
\<close>

theorem C10_unparseable_body_is_transport_failure:
  "signup_validateEmail (email t) = '''' \<Longrightarrow> signup_validatePassword (password t) = '''' \<Longrightarrow>
   fetch (apiEndpoint sprops)
     \<lparr>fi_method = ''POST'', fi_headers = [(''Content-Type'', ''application/json'')],
      fi_body = \<lparr>sp_email = email t, sp_password = password t\<rparr>\<rparr> = FetchResolved r \<Longrightarrow>
   \<not> ok r \<Longrightarrow> json r = JsonRejected \<Longrightarrow>
   error (fst (signup_handleSubmit sprops fetch t)) = ''Something went wrong''
   \<and> error (fst (signup_handleSubmit sprops fetch t)) \<noteq> ''Signup failed''
   \<and> signup_try sprops (FetchResolved r) (t\<lparr>loading := True, error := ''''\<rparr>) = Inl JsonError
   \<and> signup_try sprops FetchRejected (t\<lparr>loading := True, error := ''''\<rparr>) = Inl FetchError
   \<and> fst (signup_handleSubmit sprops fetch t)
       = fst (signup_handleSubmit sprops (\<lambda>url init. FetchRejected) t)"
  by (simp add: signup_handleSubmit_valid signup_handleSubmit_resume_def signup_try_def)

theorem C10_unparseable_body_is_transport_failure_witness:
  "signup_validateEmail ''a@b.com'' = '''' \<and> signup_validatePassword ''longenough1'' = ''''
   \<and> signup_handleSubmit \<lparr>sp_apiEndpoint = None, sp_onSuccess = False, sp_loginUrl = None\<rparr>
        (\<lambda>url init. FetchResolved \<lparr>ok = False, json = JsonRejected\<rparr>)
        (initialState\<lparr>email := ''a@b.com'', password := ''longenough1''\<rparr>)
     = (\<lparr>email = ''a@b.com'', password = ''longenough1'', loading = False,
         error = ''Something went wrong'',
         fieldErrors = \<lparr>fe_email = None, fe_password = None\<rparr>\<rparr>,
        [PreventDefault,
         FetchCall ''/api/auth/signup''
           \<lparr>fi_method = ''POST'', fi_headers = [(''Content-Type'', ''application/json'')],
            fi_body = \<lparr>sp_email = ''a@b.com'', sp_password = ''longenough1''\<rparr>\<rparr>])
   \<and> fst (signup_handleSubmit \<lparr>sp_apiEndpoint = None, sp_onSuccess = False, sp_loginUrl = None\<rparr>
        (\<lambda>url init. FetchRejected)
        (initialState\<lparr>email := ''a@b.com'', password := ''longenough1''\<rparr>))
     = \<lparr>email = ''a@b.com'', password = ''longenough1'', loading = False,
        error = ''Something went wrong'',
        fieldErrors = \<lparr>fe_email = None, fe_password = None\<rparr>\<rparr>"
  using C10_unparseable_body_is_transport_failure
    [where t = "initialState\<lparr>email := ''a@b.com'', password := ''longenough1''\<rparr>"
       and fetch = "\<lambda>url init. FetchResolved \<lparr>ok = False, json = JsonRejected\<rparr>"
       and sprops = "\<lparr>sp_apiEndpoint = None, sp_onSuccess = False, sp_loginUrl = None\<rparr>"
       and r = "\<lparr>ok = False, json = JsonRejected\<rparr>"]
  by (simp add: model_defs)

text \<open>
  C9: whatever a submit attempt ends in, the email and the password are what they were.
  Whether the form is then ready for a new attempt is the flag \<open>loading\<close>, which disables
  the submit button. A failed validation leaves the flag as it was; a failure the login
  adapter reports, and every answer or rejection of the signup request, ends with the flag
  clear. A rejected \<open>signIn\<close> promise does not: the login form has no \<open>catch\<close> or \<open>finally\<close>,
  the flag set before the call stays set, no top-level error is stored, and the button
  stays disabled. The signup form handles the same failure in its \<open>catch\<close> and \<open>finally\<close>.
\<close>

theorem C9_error_outcomes_fields_and_flag:
  "email (fst (login_handleSubmit lprops signIn s)) = email s
   \<and> password (fst (login_handleSubmit lprops signIn s)) = password s
   \<and> email (fst (signup_handleSubmit sprops fetch t)) = email t
   \<and> password (fst (signup_handleSubmit sprops fetch t)) = password t
   \<and> (truthy (login_validateEmail (email s)) \<or> truthy (login_validatePassword (password s)) \<longrightarrow>
        submit_disabled (fst (login_handleSubmit lprops signIn s)) = submit_disabled s)
   \<and> (login_validateEmail (email s) = '''' \<and> login_validatePassword (password s) = ''''
      \<and> signIn ''credentials'' \<lparr>so_email = email s, so_password = password s, so_redirect = False\<rparr>
          = SignInResolved result
      \<and> result_error result \<longrightarrow>
        \<not> submit_disabled (fst (login_handleSubmit lprops signIn s)))
   \<and> (truthy (signup_validateEmail (email t)) \<or> truthy (signup_validatePassword (password t)) \<longrightarrow>
        submit_disabled (fst (signup_handleSubmit sprops fetch t)) = submit_disabled t)
   \<and> (signup_validateEmail (email t) = '''' \<and> signup_validatePassword (password t) = '''' \<longrightarrow>
        \<not> submit_disabled (fst (signup_handleSubmit sprops fetch t)))
   \<and> (login_validateEmail (email s) = '''' \<and> login_validatePassword (password s) = ''''
      \<and> signIn ''credentials'' \<lparr>so_email = email s, so_password = password s, so_redirect = False\<rparr>
          = SignInRejected \<longrightarrow>
        submit_disabled (fst (login_handleSubmit lprops signIn s))
        \<and> error (fst (login_handleSubmit lprops signIn s)) = '''')"
proof -
  have lf: "truthy (login_validateEmail (email s)) \<or> truthy (login_validatePassword (password s)) \<longrightarrow>
        submit_disabled (fst (login_handleSubmit lprops signIn s)) = submit_disabled s"
    by (auto simp: login_handleSubmit_invalid submit_disabled_def)
  have rf: "truthy (signup_validateEmail (email t)) \<or> truthy (signup_validatePassword (password t)) \<longrightarrow>
        submit_disabled (fst (signup_handleSubmit sprops fetch t)) = submit_disabled t"
    by (auto simp: signup_handleSubmit_invalid submit_disabled_def)
  have la: "login_validateEmail (email s) = '''' \<and> login_validatePassword (password s) = ''''
      \<and> signIn ''credentials'' \<lparr>so_email = email s, so_password = password s, so_redirect = False\<rparr>
          = SignInResolved result
      \<and> result_error result \<longrightarrow>
        \<not> submit_disabled (fst (login_handleSubmit lprops signIn s))"
    by (simp add: login_handleSubmit_valid login_handleSubmit_resume_def submit_disabled_def)
  have ra: "signup_validateEmail (email t) = '''' \<and> signup_validatePassword (password t) = '''' \<longrightarrow>
        \<not> submit_disabled (fst (signup_handleSubmit sprops fetch t))"
    by (simp add: signup_handleSubmit_valid signup_resume_loading submit_disabled_def)
  have lr: "login_validateEmail (email s) = '''' \<and> login_validatePassword (password s) = ''''
      \<and> signIn ''credentials'' \<lparr>so_email = email s, so_password = password s, so_redirect = False\<rparr>
          = SignInRejected \<longrightarrow>
        submit_disabled (fst (login_handleSubmit lprops signIn s))
        \<and> error (fst (login_handleSubmit lprops signIn s)) = ''''"
    by (simp add: login_rejected_signIn_keeps_loading submit_disabled_def)
  show ?thesis
    using lf rf la ra lr login_handleSubmit_frame [of lprops signIn s]
      signup_handleSubmit_frame [of sprops fetch t]
    by blast
qed

theorem C9_error_outcomes_fields_and_flag_witness:
  "truthy (login_validateEmail ''bad'')
   \<and> fst (login_handleSubmit \<lparr>lp_onSuccess = False, lp_redirectUrl = None, lp_signupUrl = None\<rparr>
        (\<lambda>provider options. SignInRejected)
        (initialState\<lparr>email := ''bad'', password := ''secret''\<rparr>))
     = \<lparr>email = ''bad'', password = ''secret'', loading = False, error = '''',
        fieldErrors = \<lparr>fe_email = Some ''Invalid email format'', fe_password = Some ''''\<rparr>\<rparr>
   \<and> login_validateEmail ''a@b.com'' = '''' \<and> login_validatePassword ''secret'' = ''''
   \<and> result_error (Some \<lparr>sr_error = Some ''CredentialsSignin''\<rparr>)
   \<and> fst (login_handleSubmit \<lparr>lp_onSuccess = False, lp_redirectUrl = None, lp_signupUrl = None\<rparr>
        (\<lambda>provider options. SignInResolved (Some \<lparr>sr_error = Some ''CredentialsSignin''\<rparr>))
        (initialState\<lparr>email := ''a@b.com'', password := ''secret''\<rparr>))
     = \<lparr>email = ''a@b.com'', password = ''secret'', loading = False,
        error = ''Invalid email or password'',
        fieldErrors = \<lparr>fe_email = None, fe_password = None\<rparr>\<rparr>
   \<and> fst (login_handleSubmit \<lparr>lp_onSuccess = False, lp_redirectUrl = None, lp_signupUrl = None\<rparr>
        (\<lambda>provider options. SignInRejected)
        (initialState\<lparr>email := ''a@b.com'', password := ''secret''\<rparr>))
     = \<lparr>email = ''a@b.com'', password = ''secret'', loading = True, error = '''',
        fieldErrors = \<lparr>fe_email = None, fe_password = None\<rparr>\<rparr>
   \<and> submit_disabled (fst (login_handleSubmit
        \<lparr>lp_onSuccess = False, lp_redirectUrl = None, lp_signupUrl = None\<rparr>
        (\<lambda>provider options. SignInRejected)
        (initialState\<lparr>email := ''a@b.com'', password := ''secret''\<rparr>)))
   \<and> truthy (signup_validatePassword ''short'')
   \<and> fst (signup_handleSubmit \<lparr>sp_apiEndpoint = None, sp_onSuccess = False, sp_loginUrl = None\<rparr>
        (\<lambda>url init. FetchRejected)
        (initialState\<lparr>email := ''a@b.com'', password := ''short''\<rparr>))
     = \<lparr>email = ''a@b.com'', password = ''short'', loading = False, error = '''',
        fieldErrors = \<lparr>fe_email = Some '''',
                       fe_password = Some ''Password must be at least 8 characters''\<rparr>\<rparr>
   \<and> signup_validateEmail ''a@b.com'' = '''' \<and> signup_validatePassword ''longenough1'' = ''''
   \<and> fst (signup_handleSubmit \<lparr>sp_apiEndpoint = None, sp_onSuccess = False, sp_loginUrl = None\<rparr>
        (\<lambda>url init. FetchRejected)
        (initialState\<lparr>email := ''a@b.com'', password := ''longenough1''\<rparr>))
     = \<lparr>email = ''a@b.com'', password = ''longenough1'', loading = False,
        error = ''Something went wrong'',
        fieldErrors = \<lparr>fe_email = None, fe_password = None\<rparr>\<rparr>"
  using
    C9_error_outcomes_fields_and_flag
      [where s = "initialState\<lparr>email := ''bad'', password := ''secret''\<rparr>"
         and signIn = "\<lambda>provider options. SignInRejected"
         and result = "None"
         and lprops = "\<lparr>lp_onSuccess = False, lp_redirectUrl = None, lp_signupUrl = None\<rparr>"
         and t = "initialState\<lparr>email := ''a@b.com'', password := ''short''\<rparr>"
         and fetch = "\<lambda>url init. FetchRejected"
         and sprops = "\<lparr>sp_apiEndpoint = None, sp_onSuccess = False, sp_loginUrl = None\<rparr>"]
    C9_error_outcomes_fields_and_flag
      [where s = "initialState\<lparr>email := ''a@b.com'', password := ''secret''\<rparr>"
         and signIn = "\<lambda>provider options. SignInResolved (Some \<lparr>sr_error = Some ''CredentialsSignin''\<rparr>)"
         and result = "Some \<lparr>sr_error = Some ''CredentialsSignin''\<rparr>"
         and lprops = "\<lparr>lp_onSuccess = False, lp_redirectUrl = None, lp_signupUrl = None\<rparr>"
         and t = "initialState\<lparr>email := ''a@b.com'', password := ''longenough1''\<rparr>"
         and fetch = "\<lambda>url init. FetchRejected"
         and sprops = "\<lparr>sp_apiEndpoint = None, sp_onSuccess = False, sp_loginUrl = None\<rparr>"]
    C9_error_outcomes_fields_and_flag
      [where s = "initialState\<lparr>email := ''a@b.com'', password := ''secret''\<rparr>"
         and signIn = "\<lambda>provider options. SignInRejected"
         and result = "None"
         and lprops = "\<lparr>lp_onSuccess = False, lp_redirectUrl = None, lp_signupUrl = None\<rparr>"
         and t = "initialState\<lparr>email := ''a@b.com'', password := ''longenough1''\<rparr>"
         and fetch = "\<lambda>url init. FetchRejected"
         and sprops = "\<lparr>sp_apiEndpoint = None, sp_onSuccess = False, sp_loginUrl = None\<rparr>"]
  by (simp add: model_defs submit_disabled_def)

end
